theory Spec2Isabelle
  imports Main
begin

section \<open>MLDataset: the sample-windowing adapter of PaddleTS\<close>

text \<open>
  A shallow embedding of \<^verbatim>\<open>paddlets/models/forecasting/ml/adapter/ml_dataset.py\<close>.
  Python integers are \<open>int\<close>. Timestamps are totally ordered and only compared and looked
  up by the adapter, so they are \<open>int\<close> too. A raised exception is the \<open>Inl\<close> of a sum.
\<close>

subsection \<open>Errors\<close>

text \<open>
  The first ten constructors name the \<^verbatim>\<open>raise_if\<close> sites of \<^verbatim>\<open>__init__\<close>, in the order
  of the source. The last three are the exceptions the Python runtime itself raises:
  an index out of range, a timestamp that \<^verbatim>\<open>get_loc\<close> does not find, a method called
  on \<^verbatim>\<open>None\<close>.
\<close>

datatype error =
    NullDatasetError
  | EmptyTargetError
  | InvalidChunkLengthError
  | InvalidStrideError
  | TargetTooShortError
  | WindowLowerBoundError
  | WindowUpperBoundError
  | KnownCovTimestampTooEarlyError
  | KnownCovInsufficientError
  | ObservedCovTimestampTooEarlyError
  | IndexError
  | KeyError
  | AttributeError

fun is_validation_error :: "error \<Rightarrow> bool" where
  "is_validation_error IndexError = False"
| "is_validation_error KeyError = False"
| "is_validation_error AttributeError = False"
| "is_validation_error _ = True"

fun is_window_bound_error :: "error \<Rightarrow> bool" where
  "is_window_bound_error WindowLowerBoundError = True"
| "is_window_bound_error WindowUpperBoundError = True"
| "is_window_bound_error _ = False"

text \<open>
  Modelled from the spec: \<^verbatim>\<open>raise_if\<close> of \<^verbatim>\<open>paddlets.logger\<close>, which is imported by
  the source and not part of it. It raises when its condition holds and returns otherwise.
\<close>

definition raise_if :: "bool \<Rightarrow> error \<Rightarrow> error + unit" where
  "raise_if cond err = (if cond then Inl err else Inr ())"

subsection \<open>Python sequences\<close>

text \<open>
  \<^verbatim>\<open>xs[i]\<close>: a negative index counts from the end, an index out of range raises.
\<close>

definition py_index :: "'a list \<Rightarrow> int \<Rightarrow> error + 'a" where
  "py_index xs i =
     (if i < - int (length xs) \<or> int (length xs) \<le> i then Inl IndexError
      else if i < 0 then Inr (xs ! nat (int (length xs) + i))
      else Inr (xs ! nat i))"

text \<open>
  \<^verbatim>\<open>xs[a:b]\<close> with step 1: a negative bound counts from the end, every bound is
  clamped to the sequence, and the slice is empty when the start is not before the stop.
  A slice never raises.
\<close>

definition slice_bound :: "int \<Rightarrow> int \<Rightarrow> int" where
  "slice_bound n a = (if a < 0 then max 0 (a + n) else min a n)"

definition py_slice :: "'a list \<Rightarrow> int \<Rightarrow> int \<Rightarrow> 'a list" where
  "py_slice xs a b =
     (let n = int (length xs);
          lo = slice_bound n a;
          hi = slice_bound n b
      in take (nat (hi - lo)) (drop (nat lo) xs))"

text \<open>\<^verbatim>\<open>xs[a:]\<close>.\<close>

definition py_slice_from :: "'a list \<Rightarrow> int \<Rightarrow> 'a list" where
  "py_slice_from xs a = drop (nat (slice_bound (int (length xs)) a)) xs"

subsection \<open>The time series collaborators\<close>

text \<open>
  Modelled from the spec: \<^verbatim>\<open>TimeSeries\<close> and \<^verbatim>\<open>TSDataset\<close> of \<^verbatim>\<open>paddlets\<close>, which the
  source imports. A series is its rows in order, each with its timestamp, so the time
  index and the matrix have the same number of rows; \<^verbatim>\<open>len(series.data)\<close> and
  \<^verbatim>\<open>len(series.time_index)\<close> are both the length of the list. A matrix is the list of
  its rows; the empty matrix \<^verbatim>\<open>np.zeros(shape=(0, 0))\<close> is \<open>[]\<close>.
\<close>

type_synonym timestamp = int

type_synonym 'a series = "(timestamp \<times> 'a) list"

definition time_index :: "'a series \<Rightarrow> timestamp list" where
  "time_index ts = map fst ts"

definition to_numpy :: "'a series \<Rightarrow> 'a list" where
  "to_numpy ts = map snd ts"

text \<open>
  Modelled from the spec: \<^verbatim>\<open>time_index.get_loc\<close>, the position of a timestamp in an
  index, a lookup error when it is absent. The timestamps of an index are strictly
  increasing, so the position is unique.
\<close>

fun get_loc :: "timestamp list \<Rightarrow> timestamp \<Rightarrow> error + int" where
  "get_loc [] k = Inl KeyError"
| "get_loc (x # xs) k =
     (if x = k then Inr 0
      else (case get_loc xs k of Inl e \<Rightarrow> Inl e | Inr i \<Rightarrow> Inr (i + 1)))"

record 'a tsdataset =
  get_target :: "'a series option"
  get_known_cov :: "'a series option"
  get_observed_cov :: "'a series option"

subsection \<open>The dataset object\<close>

record 'a sample =
  past_target :: "'a list"
  future_target :: "'a list"
  known_cov :: "'a list"
  observed_cov :: "'a list"

record 'a mldataset =
  rawdataset :: "'a tsdataset"
  target_in_chunk_len :: int
  target_out_chunk_len :: int
  target_skip_chunk_len :: int
  known_cov_chunk_len :: int
  observed_cov_chunk_len :: int
  sampling_stride :: int
  time_window :: "int \<times> int"
  samples :: "'a sample list"

text \<open>
  \<^verbatim>\<open>_compute_min_allowed_window\<close>. It reads the three chunk lengths of \<^verbatim>\<open>self\<close>,
  which hold the arguments of \<^verbatim>\<open>__init__\<close> and are never assigned again.
\<close>

definition compute_min_allowed_window :: "int \<Rightarrow> int \<Rightarrow> int \<Rightarrow> int" where
  "compute_min_allowed_window in_chunk_len skip_chunk_len out_chunk_len =
     max 1 in_chunk_len + skip_chunk_len + out_chunk_len - 1"

subsection \<open>Building the samples\<close>

text \<open>
  The right tail of the known covariates chunk of the sample whose future target ends
  at row \<open>future_target_tail\<close> of the target.
\<close>

definition known_cov_right_tail ::
  "'a mldataset \<Rightarrow> 'a series \<Rightarrow> 'a series \<Rightarrow> int \<Rightarrow> error + int" where
  "known_cov_right_tail self target_ts known_cov_ts future_target_tail =
     (if future_target_tail > int (length (time_index target_ts)) - 1 then
        (case py_index (time_index target_ts) (- 1) of
           Inl e \<Rightarrow> Inl e
         | Inr max_target_timestamp \<Rightarrow>
             (case get_loc (time_index known_cov_ts) max_target_timestamp of
                Inl e \<Rightarrow> Inl e
              | Inr max_target_timestamp_idx_in_known \<Rightarrow>
                  Inr (max_target_timestamp_idx_in_known
                         + target_skip_chunk_len self + target_out_chunk_len self)))
      else
        (case py_index (time_index target_ts) future_target_tail of
           Inl e \<Rightarrow> Inl e
         | Inr future_target_tail_timestamp \<Rightarrow>
             get_loc (time_index known_cov_ts) future_target_tail_timestamp))"

definition build_known_cov :: "'a mldataset \<Rightarrow> 'a series \<Rightarrow> int \<Rightarrow> error + 'a list" where
  "build_known_cov self target_ts future_target_tail =
     (case get_known_cov (rawdataset self) of
        None \<Rightarrow> Inr []
      | Some known_cov_ts \<Rightarrow>
          (case known_cov_right_tail self target_ts known_cov_ts future_target_tail of
             Inl e \<Rightarrow> Inl e
           | Inr right_tail \<Rightarrow>
               (let known_cov_ndarray = to_numpy known_cov_ts;
                    known_cov_right =
                      py_slice known_cov_ndarray
                        (right_tail - target_out_chunk_len self + 1) (right_tail + 1);
                    known_cov_left_tail =
                      right_tail - target_out_chunk_len self - target_skip_chunk_len self;
                    known_cov_left =
                      py_slice known_cov_ndarray
                        (known_cov_left_tail - target_in_chunk_len self + 1)
                        (known_cov_left_tail + 1)
                in Inr (known_cov_left @ known_cov_right))))"

definition build_observed_cov :: "'a mldataset \<Rightarrow> 'a series \<Rightarrow> int \<Rightarrow> error + 'a list" where
  "build_observed_cov self target_ts past_target_tail =
     (case get_observed_cov (rawdataset self) of
        None \<Rightarrow> Inr []
      | Some observed_cov_ts \<Rightarrow>
          (case py_index (time_index target_ts) past_target_tail of
             Inl e \<Rightarrow> Inl e
           | Inr past_target_tail_timestamp \<Rightarrow>
               (case get_loc (time_index observed_cov_ts) past_target_tail_timestamp of
                  Inl e \<Rightarrow> Inl e
                | Inr observed_cov_tail \<Rightarrow>
                    Inr (py_slice (to_numpy observed_cov_ts)
                           (observed_cov_tail - observed_cov_chunk_len self + 1)
                           (observed_cov_tail + 1)))))"

text \<open>The body of the \<^verbatim>\<open>while\<close> loop of \<^verbatim>\<open>_build_samples\<close>: one sample.\<close>

definition build_sample :: "'a mldataset \<Rightarrow> 'a series \<Rightarrow> int \<Rightarrow> error + 'a sample" where
  "build_sample self target_ts future_target_tail =
     (let target_ndarray = to_numpy target_ts;
          future =
            (if future_target_tail > int (length (time_index target_ts)) - 1 then []
             else py_slice target_ndarray
                    (future_target_tail - target_out_chunk_len self + 1)
                    (future_target_tail + 1));
          past_target_tail =
            future_target_tail - target_out_chunk_len self - target_skip_chunk_len self;
          past =
            (if target_in_chunk_len self = 0 then []
             else py_slice target_ndarray
                    (past_target_tail - target_in_chunk_len self + 1) (past_target_tail + 1))
      in case build_known_cov self target_ts future_target_tail of
           Inl e \<Rightarrow> Inl e
         | Inr known \<Rightarrow>
             (case build_observed_cov self target_ts past_target_tail of
                Inl e \<Rightarrow> Inl e
              | Inr observed \<Rightarrow>
                  Inr \<lparr>past_target = past, future_target = future,
                       known_cov = known, observed_cov = observed\<rparr>))"

text \<open>
  The \<^verbatim>\<open>while\<close> loop of \<^verbatim>\<open>_build_samples\<close>. With a stride that is not positive the
  loop of the source does not end, so the loop is a partial function: \<open>None\<close> is a
  run that never returns, \<open>Some (Inl e)\<close> a run that raises.
\<close>

partial_function (option) build_loop ::
  "'a mldataset \<Rightarrow> 'a series \<Rightarrow> int \<Rightarrow> 'a sample list \<Rightarrow> (error + 'a sample list) option" where
  "build_loop self target_ts future_target_tail acc =
     (if future_target_tail \<le> snd (time_window self) then
        (case build_sample self target_ts future_target_tail of
           Inl e \<Rightarrow> Some (Inl e)
         | Inr sample \<Rightarrow>
             build_loop self target_ts (future_target_tail + sampling_stride self)
               (acc @ [sample]))
      else Some (Inr acc))"

declare build_loop.simps [code]

definition build_samples :: "'a mldataset \<Rightarrow> (error + 'a sample list) option" where
  "build_samples self =
     (case get_target (rawdataset self) of
        None \<Rightarrow> Some (Inl AttributeError)
      | Some target_ts \<Rightarrow> build_loop self target_ts (fst (time_window self)) [])"

subsection \<open>Construction\<close>

text \<open>The checks of the arguments, lines 261 to 279 of the source.\<close>

definition check_arguments ::
  "'a tsdataset option \<Rightarrow> int \<Rightarrow> int \<Rightarrow> int \<Rightarrow> int \<Rightarrow> error + ('a tsdataset \<times> 'a series)" where
  "check_arguments rawdataset' in_chunk_len out_chunk_len skip_chunk_len sampling_stride' =
     (case rawdataset' of
        None \<Rightarrow> Inl NullDatasetError
      | Some raw \<Rightarrow>
          (case get_target raw of
             None \<Rightarrow> Inl NullDatasetError
           | Some target \<Rightarrow>
               if length (time_index target) < 1 then Inl EmptyTargetError
               else if in_chunk_len < 0 then Inl InvalidChunkLengthError
               else if skip_chunk_len < 0 then Inl InvalidChunkLengthError
               else if out_chunk_len \<le> 0 then Inl InvalidChunkLengthError
               else if sampling_stride' \<le> 0 then Inl InvalidStrideError
               else Inr (raw, target)))"

text \<open>The default window, lines 281 to 294.\<close>

definition resolve_time_window ::
  "'a series \<Rightarrow> int \<Rightarrow> int \<Rightarrow> int \<Rightarrow> (int \<times> int) option \<Rightarrow> error + (int \<times> int)" where
  "resolve_time_window target in_chunk_len skip_chunk_len out_chunk_len time_window' =
     (case time_window' of
        None \<Rightarrow>
          if int (length (time_index target))
               < max 1 in_chunk_len + skip_chunk_len + out_chunk_len
          then Inl TargetTooShortError
          else Inr (compute_min_allowed_window in_chunk_len skip_chunk_len out_chunk_len,
                    int (length (time_index target)) - 1)
      | Some w \<Rightarrow> Inr w)"

text \<open>The bounds of the window, lines 296 to 306.\<close>

definition max_allowed_window :: "'a mldataset \<Rightarrow> 'a series \<Rightarrow> int" where
  "max_allowed_window self target =
     int (length target) - 1 + target_skip_chunk_len self + target_out_chunk_len self"

definition check_time_window :: "'a mldataset \<Rightarrow> 'a series \<Rightarrow> error + unit" where
  "check_time_window self target =
     (if fst (time_window self)
           < compute_min_allowed_window (target_in_chunk_len self)
               (target_skip_chunk_len self) (target_out_chunk_len self)
      then Inl WindowLowerBoundError
      else if snd (time_window self) > max_allowed_window self target
      then Inl WindowUpperBoundError
      else Inr ())"

text \<open>The target, lines 308 to 334.\<close>

definition validate_target :: "'a mldataset \<Rightarrow> 'a series \<Rightarrow> error + unit" where
  "validate_target self target =
     (let max_target_idx = int (length (time_index target)) - 1;
          min_allowed_target_len =
            (if snd (time_window self) > max_target_idx
             then max 1 (target_in_chunk_len self)
             else max 1 (target_in_chunk_len self) + target_skip_chunk_len self
                    + target_out_chunk_len self)
      in raise_if (int (length (time_index target)) < min_allowed_target_len)
           TargetTooShortError)"

text \<open>The known covariates, lines 336 to 412.\<close>

definition validate_known_cov ::
  "'a mldataset \<Rightarrow> 'a series \<Rightarrow> timestamp \<Rightarrow> error + unit" where
  "validate_known_cov self target max_target_timestamp =
     (let max_target_idx = int (length (time_index target)) - 1;
          target_timeindex = time_index target
      in case get_known_cov (rawdataset self) of
           None \<Rightarrow> Inr ()
         | Some known_cov_ts \<Rightarrow>
             (let known_timeindex = time_index known_cov_ts
              in if snd (time_window self) > max_target_idx then
                   (case py_index known_timeindex (- 1) of
                      Inl e \<Rightarrow> Inl e
                    | Inr known_max_timestamp \<Rightarrow>
                        if known_max_timestamp < max_target_timestamp
                        then Inl KnownCovTimestampTooEarlyError
                        else
                          (case get_loc known_timeindex max_target_timestamp of
                             Inl e \<Rightarrow> Inl e
                           | Inr idx \<Rightarrow>
                               (let exceeded_time_steps =
                                      snd (time_window self) - max_target_idx
                                in raise_if
                                     (int (length (py_slice_from known_timeindex idx))
                                        \<le> exceeded_time_steps)
                                     KnownCovInsufficientError)))
                 else
                   (case py_index target_timeindex (snd (time_window self)) of
                      Inl e \<Rightarrow> Inl e
                    | Inr upper_window_timestamp \<Rightarrow>
                        (case py_index known_timeindex (- 1) of
                           Inl e \<Rightarrow> Inl e
                         | Inr known_max_timestamp \<Rightarrow>
                             raise_if (known_max_timestamp < upper_window_timestamp)
                               KnownCovTimestampTooEarlyError))))"

text \<open>The observed covariates, lines 414 to 457.\<close>

definition validate_observed_cov ::
  "'a mldataset \<Rightarrow> 'a series \<Rightarrow> timestamp \<Rightarrow> error + unit" where
  "validate_observed_cov self target max_target_timestamp =
     (let max_target_idx = int (length (time_index target)) - 1;
          target_timeindex = time_index target
      in case get_observed_cov (rawdataset self) of
           None \<Rightarrow> Inr ()
         | Some observed_cov_ts \<Rightarrow>
             (let observed_timeindex = time_index observed_cov_ts
              in if snd (time_window self) > max_target_idx then
                   (case py_index observed_timeindex (- 1) of
                      Inl e \<Rightarrow> Inl e
                    | Inr observed_max_timestamp \<Rightarrow>
                        raise_if (observed_max_timestamp < max_target_timestamp)
                          ObservedCovTimestampTooEarlyError)
                 else
                   (let last_sample_past_target_tail =
                          snd (time_window self) - target_skip_chunk_len self
                            - target_out_chunk_len self
                    in case py_index target_timeindex last_sample_past_target_tail of
                         Inl e \<Rightarrow> Inl e
                       | Inr last_sample_past_target_tail_timestamp \<Rightarrow>
                           (case py_index observed_timeindex (- 1) of
                              Inl e \<Rightarrow> Inl e
                            | Inr observed_max_timestamp \<Rightarrow>
                                raise_if
                                  (observed_max_timestamp
                                     < last_sample_past_target_tail_timestamp)
                                  ObservedCovTimestampTooEarlyError))))"

text \<open>
  The validation of the dataset against the resolved window, lines 296 to 457, in the
  order of the source.
\<close>

definition validate_dataset :: "'a mldataset \<Rightarrow> 'a series \<Rightarrow> error + unit" where
  "validate_dataset self target =
     (case check_time_window self target of
        Inl e \<Rightarrow> Inl e
      | Inr _ \<Rightarrow>
          (case py_index (time_index target) (int (length (time_index target)) - 1) of
             Inl e \<Rightarrow> Inl e
           | Inr max_target_timestamp \<Rightarrow>
               (case validate_target self target of
                  Inl e \<Rightarrow> Inl e
                | Inr _ \<Rightarrow>
                    (case validate_known_cov self target max_target_timestamp of
                       Inl e \<Rightarrow> Inl e
                     | Inr _ \<Rightarrow> validate_observed_cov self target max_target_timestamp))))"

text \<open>
  The object \<^verbatim>\<open>self\<close>: the fields set at lines 252 to 259, with the window as it
  is once line 294 has resolved it, and no sample yet.
\<close>

definition new_self ::
  "'a tsdataset \<Rightarrow> int \<Rightarrow> int \<Rightarrow> int \<Rightarrow> int \<Rightarrow> int \<times> int \<Rightarrow> 'a mldataset" where
  "new_self raw in_chunk_len out_chunk_len skip_chunk_len sampling_stride' w =
     \<lparr>rawdataset = raw,
      target_in_chunk_len = in_chunk_len,
      target_out_chunk_len = out_chunk_len,
      target_skip_chunk_len = skip_chunk_len,
      known_cov_chunk_len = in_chunk_len + out_chunk_len,
      observed_cov_chunk_len = (if in_chunk_len = 0 then 1 else in_chunk_len),
      sampling_stride = sampling_stride',
      time_window = w,
      samples = []\<rparr>"

text \<open>\<^verbatim>\<open>MLDataset.__init__\<close>.\<close>

definition init ::
  "'a tsdataset option \<Rightarrow> int \<Rightarrow> int \<Rightarrow> int \<Rightarrow> int \<Rightarrow> (int \<times> int) option
     \<Rightarrow> (error + 'a mldataset) option" where
  "init rawdataset' in_chunk_len out_chunk_len skip_chunk_len sampling_stride' time_window' =
     (case check_arguments rawdataset' in_chunk_len out_chunk_len skip_chunk_len
             sampling_stride' of
        Inl e \<Rightarrow> Some (Inl e)
      | Inr (raw, target) \<Rightarrow>
          (case resolve_time_window target in_chunk_len skip_chunk_len out_chunk_len
                  time_window' of
             Inl e \<Rightarrow> Some (Inl e)
           | Inr w \<Rightarrow>
               (let self = new_self raw in_chunk_len out_chunk_len skip_chunk_len
                             sampling_stride' w
                in case validate_dataset self target of
                     Inl e \<Rightarrow> Some (Inl e)
                   | Inr _ \<Rightarrow>
                       (case build_samples self of
                          None \<Rightarrow> None
                        | Some (Inl e) \<Rightarrow> Some (Inl e)
                        | Some (Inr built) \<Rightarrow> Some (Inr (self\<lparr>samples := built\<rparr>))))))"

text \<open>\<^verbatim>\<open>__len__\<close> and \<^verbatim>\<open>__getitem__\<close>.\<close>

definition len :: "'a mldataset \<Rightarrow> int" where
  "len self = int (length (samples self))"

definition getitem :: "'a mldataset \<Rightarrow> int \<Rightarrow> error + 'a sample" where
  "getitem self idx = py_index (samples self) idx"

subsection \<open>The example of the source\<close>

text \<open>
  The dataset of the second example in the docstring of \<^verbatim>\<open>_build_samples\<close>: eight
  target rows, nine rows of known covariates, eight rows of observed covariates, on the
  timestamps \<open>0, 1, 2, \<dots>\<close>.
\<close>

definition example_target :: "int list series" where
  "example_target =
     [(0, [0, 0]), (1, [1, 10]), (2, [2, 20]), (3, [3, 30]),
      (4, [4, 40]), (5, [5, 50]), (6, [6, 60]), (7, [7, 70])]"

definition example_known_cov :: "int list series" where
  "example_known_cov =
     [(0, [0, 0, 0]), (1, [10, 100, 1000]), (2, [20, 200, 2000]), (3, [30, 300, 3000]),
      (4, [40, 400, 4000]), (5, [50, 500, 5000]), (6, [60, 600, 6000]),
      (7, [70, 700, 7000]), (8, [80, 800, 8000])]"

definition example_observed_cov :: "int list series" where
  "example_observed_cov =
     [(0, [0]), (1, [- 1]), (2, [- 2]), (3, [- 3]),
      (4, [- 4]), (5, [- 5]), (6, [- 6]), (7, [- 7])]"

definition example_rawdataset :: "int list tsdataset" where
  "example_rawdataset =
     \<lparr>get_target = Some example_target,
      get_known_cov = Some example_known_cov,
      get_observed_cov = Some example_observed_cov\<rparr>"

text \<open>
  The four samples the docstring lists for \<^verbatim>\<open>in_chunk_len = 2\<close>, \<^verbatim>\<open>skip_chunk_len = 1\<close>,
  \<^verbatim>\<open>out_chunk_len = 2\<close>, \<^verbatim>\<open>sampling_stride = 1\<close> and \<^verbatim>\<open>time_window = (4, 7)\<close>. The
  docstring prints the target row \<open>[2, 20]\<close> of the third sample as \<open>[2, 30]\<close>; the
  row of the dataset stands here.
\<close>

definition example_samples :: "int list sample list" where
  "example_samples =
     [\<lparr>past_target = [[0, 0], [1, 10]], future_target = [[3, 30], [4, 40]],
       known_cov = [[0, 0, 0], [10, 100, 1000], [30, 300, 3000], [40, 400, 4000]],
       observed_cov = [[0], [- 1]]\<rparr>,
      \<lparr>past_target = [[1, 10], [2, 20]], future_target = [[4, 40], [5, 50]],
       known_cov = [[10, 100, 1000], [20, 200, 2000], [40, 400, 4000], [50, 500, 5000]],
       observed_cov = [[- 1], [- 2]]\<rparr>,
      \<lparr>past_target = [[2, 20], [3, 30]], future_target = [[5, 50], [6, 60]],
       known_cov = [[20, 200, 2000], [30, 300, 3000], [50, 500, 5000], [60, 600, 6000]],
       observed_cov = [[- 2], [- 3]]\<rparr>,
      \<lparr>past_target = [[3, 30], [4, 40]], future_target = [[6, 60], [7, 70]],
       known_cov = [[30, 300, 3000], [40, 400, 4000], [60, 600, 6000], [70, 700, 7000]],
       observed_cov = [[- 3], [- 4]]\<rparr>]"

definition example_mldataset :: "int list mldataset" where
  "example_mldataset =
     (new_self example_rawdataset 2 2 1 1 (4, 7))\<lparr>samples := example_samples\<rparr>"

text \<open>
  The same arguments with the window \<^verbatim>\<open>(7, 5)\<close>, whose upper bound is below its lower
  bound: the object \<^verbatim>\<open>__init__\<close> leaves, with no sample.
\<close>

definition example_reversed_mldataset :: "int list mldataset" where
  "example_reversed_mldataset = new_self example_rawdataset 2 2 1 1 (7, 5)"

text \<open>
  The same arguments with the window \<^verbatim>\<open>(8, 8)\<close>, one step past the last row of the
  target: the one sample \<^verbatim>\<open>_build_samples\<close> returns for it.
\<close>

definition example_predict_mldataset :: "int list mldataset" where
  "example_predict_mldataset =
     (new_self example_rawdataset 2 2 1 1 (8, 8))
       \<lparr>samples :=
          [\<lparr>past_target = [[4, 40], [5, 50]], future_target = [],
            known_cov = [[60, 600, 6000], [70, 700, 7000]],
            observed_cov = [[- 4], [- 5]]\<rparr>]\<rparr>"

text \<open>
  The dataset of the docstring with the observed covariates cut after their fourth row,
  so that they end at the timestamp 3.
\<close>

definition early_observed_cov :: "int list series" where
  "early_observed_cov = [(0, [0]), (1, [- 1]), (2, [- 2]), (3, [- 3])]"

definition early_observed_rawdataset :: "int list tsdataset" where
  "early_observed_rawdataset =
     \<lparr>get_target = Some example_target,
      get_known_cov = Some example_known_cov,
      get_observed_cov = Some early_observed_cov\<rparr>"

text \<open>
  The dataset of the docstring with the known covariates starting at the timestamp 4,
  after the first target row, and the object \<^verbatim>\<open>__init__\<close> returns for it with the
  window \<^verbatim>\<open>(4, 4)\<close>.
\<close>

definition late_known_cov :: "int list series" where
  "late_known_cov =
     [(4, [40, 400, 4000]), (5, [50, 500, 5000]), (6, [60, 600, 6000]),
      (7, [70, 700, 7000]), (8, [80, 800, 8000])]"

definition late_known_rawdataset :: "int list tsdataset" where
  "late_known_rawdataset =
     \<lparr>get_target = Some example_target,
      get_known_cov = Some late_known_cov,
      get_observed_cov = Some example_observed_cov\<rparr>"

definition late_known_mldataset :: "int list mldataset" where
  "late_known_mldataset =
     (new_self late_known_rawdataset 2 2 1 1 (4, 4))
       \<lparr>samples :=
          [\<lparr>past_target = [[0, 0], [1, 10]], future_target = [[3, 30], [4, 40]],
            known_cov = [[50, 500, 5000], [60, 600, 6000]],
            observed_cov = [[0], [- 1]]\<rparr>]\<rparr>"

subsection \<open>The known covariates chunk in the words of the specification\<close>

text \<open>
  The rows \<open>a .. b\<close> of a matrix, both ends included, as the specification writes a
  range of rows: the rows at the positions \<open>a, \<dots>, b\<close>, which there are when these
  positions lie in the matrix.
\<close>

definition rows_incl :: "'a list \<Rightarrow> int \<Rightarrow> int \<Rightarrow> 'a list option" where
  "rows_incl m a b =
     (if 0 \<le> a \<and> a \<le> b + 1 \<and> b < int (length m)
      then Some (map (nth m) [nat a..<nat (b + 1)])
      else None)"

text \<open>
  The chunk the specification describes for a right tail: the rows
  \<open>right_tail - out - skip - in + 1 .. right_tail - out - skip\<close> followed by the rows
  \<open>right_tail - out + 1 .. right_tail\<close>.
\<close>

definition known_cov_rows_spec :: "'a list \<Rightarrow> int \<Rightarrow> int \<Rightarrow> int \<Rightarrow> int \<Rightarrow> 'a list option" where
  "known_cov_rows_spec m right_tail in_chunk_len out_chunk_len skip_chunk_len =
     (case rows_incl m
             (right_tail - out_chunk_len - skip_chunk_len - in_chunk_len + 1)
             (right_tail - out_chunk_len - skip_chunk_len) of
        None \<Rightarrow> None
      | Some left \<Rightarrow>
          (case rows_incl m (right_tail - out_chunk_len + 1) right_tail of
             None \<Rightarrow> None
           | Some right \<Rightarrow> Some (left @ right)))"

section \<open>Properties\<close>

subsection \<open>Python sequences and the collaborators\<close>

lemma slice_bound_id: "0 \<le> a \<Longrightarrow> a \<le> n \<Longrightarrow> slice_bound n a = a"
  by (simp add: slice_bound_def)

lemma length_py_slice:
  "0 \<le> a \<Longrightarrow> a \<le> b \<Longrightarrow> b \<le> int (length xs) \<Longrightarrow> length (py_slice xs a b) = nat (b - a)"
  by (simp add: py_slice_def Let_def slice_bound_id)

lemma get_loc_range: "get_loc xs k = Inr i \<Longrightarrow> 0 \<le> i \<and> i < int (length xs)"
  by (induction xs arbitrary: i) (auto split: if_splits sum.splits)

lemma py_index_Inl: "py_index xs j = Inl e \<Longrightarrow> e = IndexError"
  by (simp add: py_index_def split: if_splits)

lemma py_index_nth:
  "0 \<le> j \<Longrightarrow> j < int (length xs) \<Longrightarrow> py_index xs j = Inr (xs ! nat j)"
  by (simp add: py_index_def)

lemma py_index_last: "xs \<noteq> [] \<Longrightarrow> py_index xs (- 1) = Inr (last xs)"
  by (cases xs rule: rev_cases) (simp_all add: py_index_def nat_add_distrib)

lemma py_index_max_idx: "xs \<noteq> [] \<Longrightarrow> py_index xs (int (length xs) - 1) = Inr (last xs)"
  by (cases xs rule: rev_cases) (simp_all add: py_index_def)

lemma get_loc_Inl: "get_loc xs k = Inl e \<Longrightarrow> e = KeyError"
  by (induction xs) (auto split: if_splits sum.splits)

lemma sorted_last_ge: "sorted xs \<Longrightarrow> x \<in> set xs \<Longrightarrow> x \<le> last xs"
  by (induction xs) (auto split: if_splits)

lemma get_loc_mem: "get_loc xs k = Inr i \<Longrightarrow> k \<in> set xs"
  by (induction xs arbitrary: i) (auto split: if_splits sum.splits)

lemma length_py_slice_from:
  "0 \<le> a \<Longrightarrow> a \<le> int (length xs) \<Longrightarrow> int (length (py_slice_from xs a)) = int (length xs) - a"
  by (simp add: py_slice_from_def slice_bound_id)

lemma length_time_index [simp]: "length (time_index ts) = length ts"
  by (simp add: time_index_def)

lemma length_to_numpy [simp]: "length (to_numpy ts) = length ts"
  by (simp add: to_numpy_def)

subsection \<open>The loop and the construction\<close>

lemma new_self_fields [simp]:
  "rawdataset (new_self raw i ou s st w) = raw"
  "target_in_chunk_len (new_self raw i ou s st w) = i"
  "target_out_chunk_len (new_self raw i ou s st w) = ou"
  "target_skip_chunk_len (new_self raw i ou s st w) = s"
  "known_cov_chunk_len (new_self raw i ou s st w) = i + ou"
  "observed_cov_chunk_len (new_self raw i ou s st w) = (if i = 0 then 1 else i)"
  "sampling_stride (new_self raw i ou s st w) = st"
  "time_window (new_self raw i ou s st w) = w"
  "samples (new_self raw i ou s st w) = []"
  by (simp_all add: new_self_def)

lemma check_arguments_Inr:
  "check_arguments rd i ou s st = Inr (raw, target) \<longleftrightarrow>
     rd = Some raw \<and> get_target raw = Some target \<and> target \<noteq> [] \<and>
     0 \<le> i \<and> 0 \<le> s \<and> 0 < ou \<and> 0 < st"
  by (cases target) (auto simp: check_arguments_def split: option.splits)

lemma init_InrD:
  assumes "init rd i ou s st tw = Some (Inr d)"
  obtains raw target w built where
    "check_arguments rd i ou s st = Inr (raw, target)"
    "resolve_time_window target i s ou tw = Inr w"
    "validate_dataset (new_self raw i ou s st w) target = Inr ()"
    "build_samples (new_self raw i ou s st w) = Some (Inr built)"
    "d = (new_self raw i ou s st w)\<lparr>samples := built\<rparr>"
  using assms
  by (auto simp: init_def Let_def split: sum.splits option.splits prod.splits)

lemma validate_dataset_InrD:
  assumes "validate_dataset self target = Inr ()"
  obtains mts where
    "check_time_window self target = Inr ()"
    "py_index (time_index target) (int (length (time_index target)) - 1) = Inr mts"
    "validate_target self target = Inr ()"
    "validate_known_cov self target mts = Inr ()"
    "validate_observed_cov self target mts = Inr ()"
  using assms
  by (auto simp: validate_dataset_def split: sum.splits)

lemma check_time_window_Inr:
  "check_time_window self target = Inr () \<longleftrightarrow>
     max 1 (target_in_chunk_len self) + target_skip_chunk_len self + target_out_chunk_len self - 1
       \<le> fst (time_window self) \<and>
     snd (time_window self)
       \<le> int (length target) - 1 + target_skip_chunk_len self + target_out_chunk_len self"
  by (auto simp: check_time_window_def compute_min_allowed_window_def max_allowed_window_def)


text \<open>
  With a positive stride the loop ends. When it returns, it has appended one sample for
  each tail \<open>t, t + stride, \<dots>\<close> up to the upper bound of the window, each built by
  the loop body, in this order.
\<close>

lemma build_loop_spec:
  assumes st: "0 < sampling_stride self"
  shows "\<exists>r. build_loop self tgt t acc = Some r \<and>
           (\<forall>ss. r = Inr ss \<longrightarrow>
              (\<exists>new. ss = acc @ new \<and>
                 int (length new) = max 0 ((snd (time_window self) - t) div sampling_stride self + 1) \<and>
                 (\<forall>i<length new. build_sample self tgt (t + int i * sampling_stride self) = Inr (new ! i))))"
proof (induction "nat (snd (time_window self) - t + 1)" arbitrary: t acc rule: less_induct)
  case less
  let ?up = "snd (time_window self)"
  let ?st = "sampling_stride self"
  show ?case
  proof (cases "t \<le> ?up")
    case False
    then have "build_loop self tgt t acc = Some (Inr acc)"
      by (subst build_loop.simps) simp
    moreover from False st have "(?up - t) div ?st < 0"
      by (simp add: div_neg_pos_less0)
    ultimately show ?thesis by simp
  next
    case True
    show ?thesis
    proof (cases "build_sample self tgt t")
      case (Inl e)
      with True have "build_loop self tgt t acc = Some (Inl e)"
        by (subst build_loop.simps) simp
      then show ?thesis by simp
    next
      case (Inr s)
      with True have unf: "build_loop self tgt t acc = build_loop self tgt (t + ?st) (acc @ [s])"
        by (subst build_loop.simps) simp
      from True st have "nat (?up - (t + ?st) + 1) < nat (?up - t + 1)" by simp
      from less[OF this, of "acc @ [s]"] obtain r where
        r: "build_loop self tgt (t + ?st) (acc @ [s]) = Some r"
        and rs: "\<forall>ss. r = Inr ss \<longrightarrow>
              (\<exists>new. ss = (acc @ [s]) @ new \<and>
                 int (length new) = max 0 ((?up - (t + ?st)) div ?st + 1) \<and>
                 (\<forall>i<length new. build_sample self tgt (t + ?st + int i * ?st) = Inr (new ! i)))"
        by blast
      have d: "(?up - (t + ?st)) div ?st + 1 = (?up - t) div ?st"
        using st div_add_self2[of ?st "?up - (t + ?st)"] by (simp add: algebra_simps)
      have nn: "0 \<le> (?up - t) div ?st"
        using True st by (simp add: pos_imp_zdiv_nonneg_iff)
      have "\<exists>new. ss = acc @ new \<and>
                 int (length new) = max 0 ((?up - t) div ?st + 1) \<and>
                 (\<forall>i<length new. build_sample self tgt (t + int i * ?st) = Inr (new ! i))"
        if "r = Inr ss" for ss
      proof -
        from rs that obtain new where
          n1: "ss = (acc @ [s]) @ new"
          and n2: "int (length new) = max 0 ((?up - (t + ?st)) div ?st + 1)"
          and n3: "\<forall>i<length new. build_sample self tgt (t + ?st + int i * ?st) = Inr (new ! i)"
          by blast
        have a: "ss = acc @ (s # new)" using n1 by simp
        have b: "int (length (s # new)) = max 0 ((?up - t) div ?st + 1)"
          using n2 d nn by simp
        have c: "build_sample self tgt (t + int i * ?st) = Inr ((s # new) ! i)"
          if "i < length (s # new)" for i
        proof (cases i)
          case 0
          then show ?thesis using Inr by simp
        next
          case (Suc j)
          with that have "j < length new" by simp
          with n3 have "build_sample self tgt (t + ?st + int j * ?st) = Inr (new ! j)" by blast
          moreover have "t + ?st + int j * ?st = t + int i * ?st"
            using Suc by (simp add: algebra_simps)
          ultimately show ?thesis using Suc by simp
        qed
        from a b c show ?thesis by blast
      qed
      with unf r show ?thesis by simp
    qed
  qed
qed

lemma build_loop_empty:
  "snd (time_window self) < t \<Longrightarrow> build_loop self tgt t acc = Some (Inr acc)"
  by (subst build_loop.simps) simp

lemma known_cov_right_tail_samples_update [simp]:
  "known_cov_right_tail (self\<lparr>samples := x\<rparr>) = known_cov_right_tail self"
  by (intro ext) (simp add: known_cov_right_tail_def cong: sum.case_cong if_cong)

lemma build_known_cov_samples_update [simp]:
  "build_known_cov (self\<lparr>samples := x\<rparr>) = build_known_cov self"
  by (intro ext)
    (simp add: build_known_cov_def Let_def cong: sum.case_cong option.case_cong)

lemma build_observed_cov_samples_update [simp]:
  "build_observed_cov (self\<lparr>samples := x\<rparr>) = build_observed_cov self"
  by (intro ext)
    (simp add: build_observed_cov_def cong: sum.case_cong option.case_cong)

lemma build_sample_samples_update [simp]:
  "build_sample (self\<lparr>samples := x\<rparr>) = build_sample self"
  by (intro ext) (simp add: build_sample_def Let_def cong: sum.case_cong if_cong)

lemma validate_dataset_samples_update [simp]:
  "validate_dataset (self\<lparr>samples := x\<rparr>) = validate_dataset self"
  by (intro ext)
    (simp add: validate_dataset_def check_time_window_def validate_target_def
      validate_known_cov_def validate_observed_cov_def max_allowed_window_def Let_def
      cong: sum.case_cong option.case_cong if_cong)

lemma tail_in_window:
  fixes lo up st :: int
  assumes "0 < st" and "int k < max 0 ((up - lo) div st + 1)"
  shows "lo + int k * st \<le> up"
proof -
  from assms have "int k \<le> (up - lo) div st" by simp
  with assms(1) have "int k * st \<le> ((up - lo) div st) * st"
    by (simp add: mult_right_mono)
  also have "\<dots> \<le> up - lo"
    using assms(1) pos_mod_sign[of st "up - lo"]
    by (simp flip: minus_mod_eq_div_mult)
  finally show ?thesis by simp
qed

text \<open>What a successful construction establishes.\<close>

lemma init_facts:
  assumes "init rd i ou s st tw = Some (Inr d)"
  obtains raw target where
    "rd = Some raw" "get_target raw = Some target" "target \<noteq> []"
    "0 \<le> i" "0 \<le> s" "0 < ou" "0 < st"
    "resolve_time_window target i s ou tw = Inr (time_window d)"
    "validate_dataset d target = Inr ()"
    "d = (new_self raw i ou s st (time_window d))\<lparr>samples := samples d\<rparr>"
    "int (length (samples d))
       = max 0 ((snd (time_window d) - fst (time_window d)) div st + 1)"
    "\<forall>k<length (samples d).
       build_sample d target (fst (time_window d) + int k * st) = Inr (samples d ! k)"
proof -
  from assms obtain raw target w built where
    ca: "check_arguments rd i ou s st = Inr (raw, target)"
    and rw: "resolve_time_window target i s ou tw = Inr w"
    and vd: "validate_dataset (new_self raw i ou s st w) target = Inr ()"
    and bs: "build_samples (new_self raw i ou s st w) = Some (Inr built)"
    and d: "d = (new_self raw i ou s st w)\<lparr>samples := built\<rparr>"
    by (rule init_InrD)
  let ?self = "new_self raw i ou s st w"
  from ca have args: "rd = Some raw" "get_target raw = Some target" "target \<noteq> []"
    "0 \<le> i" "0 \<le> s" "0 < ou" "0 < st"
    by (simp_all add: check_arguments_Inr)
  from bs args(2) have bl: "build_loop ?self target (fst w) [] = Some (Inr built)"
    by (simp add: build_samples_def)
  from args(7) have "0 < sampling_stride ?self" by simp
  from build_loop_spec[OF this, of target "fst w" "[]"] bl
  have len: "int (length built) = max 0 ((snd w - fst w) div st + 1)"
    and each: "\<forall>k<length built. build_sample ?self target (fst w + int k * st) = Inr (built ! k)"
    by auto
  have w: "time_window d = w" and sm: "samples d = built" using d by simp_all
  have vd': "validate_dataset d target = Inr ()"
    using vd d by simp
  show thesis
    by (rule that[OF args]) (use rw vd' d len each w sm in simp_all)
qed

subsection \<open>The samples of a constructed dataset\<close>

lemma build_sample_InrD:
  assumes "build_sample self target t = Inr smp"
  shows "future_target smp
           = (if t > int (length target) - 1 then []
              else py_slice (to_numpy target) (t - target_out_chunk_len self + 1) (t + 1))"
    and "past_target smp
           = (if target_in_chunk_len self = 0 then []
              else py_slice (to_numpy target)
                     (t - target_out_chunk_len self - target_skip_chunk_len self
                        - target_in_chunk_len self + 1)
                     (t - target_out_chunk_len self - target_skip_chunk_len self + 1))"
    and "build_known_cov self target t = Inr (known_cov smp)"
    and "build_observed_cov self target
           (t - target_out_chunk_len self - target_skip_chunk_len self)
           = Inr (observed_cov smp)"
  using assms
  by (auto simp: build_sample_def Let_def split: sum.splits)

text \<open>The tails of the samples of a constructed dataset lie in the allowed range.\<close>

lemma init_sample:
  assumes "init rd i ou s st tw = Some (Inr d)" and "k < length (samples d)"
  obtains raw target t where
    "rd = Some raw" "get_target raw = Some target" "target \<noteq> []"
    "0 \<le> i" "0 \<le> s" "0 < ou" "0 < st"
    "d = (new_self raw i ou s st (time_window d))\<lparr>samples := samples d\<rparr>"
    "t = fst (time_window d) + int k * st"
    "build_sample d target t = Inr (samples d ! k)"
    "max 1 i + s + ou - 1 \<le> t" "t \<le> int (length target) - 1 + s + ou"
    "fst (time_window d) \<le> t" "t \<le> snd (time_window d)"
proof -
  from assms(1) obtain raw target where
    f: "rd = Some raw" "get_target raw = Some target" "target \<noteq> []"
       "0 \<le> i" "0 \<le> s" "0 < ou" "0 < st"
    and vd: "validate_dataset d target = Inr ()"
    and d: "d = (new_self raw i ou s st (time_window d))\<lparr>samples := samples d\<rparr>"
    and len: "int (length (samples d))
       = max 0 ((snd (time_window d) - fst (time_window d)) div st + 1)"
    and each: "\<forall>k<length (samples d).
       build_sample d target (fst (time_window d) + int k * st) = Inr (samples d ! k)"
    by (rule init_facts)
  define t where "t = fst (time_window d) + int k * st"
  from each assms(2) have bs: "build_sample d target t = Inr (samples d ! k)"
    by (simp add: t_def)
  from assms(2) len have "int k < max 0 ((snd (time_window d) - fst (time_window d)) div st + 1)"
    by simp
  from tail_in_window[OF f(7) this] have up: "t \<le> snd (time_window d)"
    by (simp add: t_def)
  from f(7) have lo: "fst (time_window d) \<le> t"
    by (simp add: t_def)
  from vd have "check_time_window d target = Inr ()"
    by (rule validate_dataset_InrD)
  then have "max 1 (target_in_chunk_len d) + target_skip_chunk_len d + target_out_chunk_len d - 1
       \<le> fst (time_window d)"
    and "snd (time_window d)
       \<le> int (length target) - 1 + target_skip_chunk_len d + target_out_chunk_len d"
    by (simp_all add: check_time_window_Inr)
  moreover have "target_in_chunk_len d = i" "target_skip_chunk_len d = s"
    "target_out_chunk_len d = ou"
    by (subst d, simp)+
  ultimately have "max 1 i + s + ou - 1 \<le> t" "t \<le> int (length target) - 1 + s + ou"
    using lo up by simp_all
  with f d bs lo up show thesis
    by (intro that[of raw target t]) (simp_all add: t_def)
qed

subsection \<open>The errors each stage can raise\<close>

lemma known_cov_right_tail_Inl:
  "known_cov_right_tail self target known t = Inl e \<Longrightarrow> e = IndexError \<or> e = KeyError"
  by (auto simp: known_cov_right_tail_def split: if_splits sum.splits
      dest: py_index_Inl get_loc_Inl)

lemma build_known_cov_Inl:
  "build_known_cov self target t = Inl e \<Longrightarrow> e = IndexError \<or> e = KeyError"
  by (auto simp: build_known_cov_def Let_def split: option.splits sum.splits
      dest: known_cov_right_tail_Inl)

lemma build_observed_cov_Inl:
  "build_observed_cov self target t = Inl e \<Longrightarrow> e = IndexError \<or> e = KeyError"
  by (auto simp: build_observed_cov_def split: option.splits sum.splits
      dest: py_index_Inl get_loc_Inl)

lemma build_sample_Inl:
  "build_sample self target t = Inl e \<Longrightarrow> e = IndexError \<or> e = KeyError"
  by (auto simp: build_sample_def Let_def split: sum.splits
      dest: build_known_cov_Inl build_observed_cov_Inl)

lemma build_loop_Inl:
  assumes st: "0 < sampling_stride self"
  shows "build_loop self tgt t acc = Some (Inl e) \<Longrightarrow> e = IndexError \<or> e = KeyError"
proof (induction "nat (snd (time_window self) - t + 1)" arbitrary: t acc rule: less_induct)
  case less
  show ?case
  proof (cases "t \<le> snd (time_window self)")
    case False
    with less.prems show ?thesis by (simp add: build_loop_empty)
  next
    case True
    show ?thesis
    proof (cases "build_sample self tgt t")
      case (Inl e')
      with True less.prems have "e' = e"
        by (subst (asm) build_loop.simps) simp
      with Inl show ?thesis by (auto dest: build_sample_Inl)
    next
      case (Inr smp)
      with True less.prems have
        "build_loop self tgt (t + sampling_stride self) (acc @ [smp]) = Some (Inl e)"
        by (subst (asm) build_loop.simps) simp
      moreover from True st have
        "nat (snd (time_window self) - (t + sampling_stride self) + 1)
           < nat (snd (time_window self) - t + 1)"
        by simp
      ultimately show ?thesis by (rule less.hyps[rotated])
    qed
  qed
qed

lemma build_samples_Inl:
  assumes "0 < sampling_stride self" and "get_target (rawdataset self) = Some target"
    and "build_samples self = Some (Inl e)"
  shows "e = IndexError \<or> e = KeyError"
  using assms by (auto simp: build_samples_def dest: build_loop_Inl)

lemma build_samples_total:
  assumes "0 < sampling_stride self"
  shows "\<exists>r. build_samples self = Some r"
proof (cases "get_target (rawdataset self)")
  case None
  then show ?thesis by (simp add: build_samples_def)
next
  case (Some target)
  from build_loop_spec[OF assms, of target "fst (time_window self)" "[]"]
  obtain r where "build_loop self target (fst (time_window self)) [] = Some r" by blast
  with Some show ?thesis by (simp add: build_samples_def)
qed

lemma check_arguments_Inl:
  "check_arguments rd i ou s st = Inl e \<Longrightarrow>
     e = NullDatasetError \<or> e = EmptyTargetError \<or> e = InvalidChunkLengthError
       \<or> e = InvalidStrideError"
  by (auto simp: check_arguments_def split: option.splits if_splits)

lemma check_time_window_Inl:
  "check_time_window self target = Inl e \<Longrightarrow> is_window_bound_error e"
  by (auto simp: check_time_window_def split: if_splits)

lemma validate_target_Inl:
  "validate_target self target = Inl e \<Longrightarrow> e = TargetTooShortError"
  by (auto simp: validate_target_def raise_if_def Let_def split: if_splits)

lemma validate_known_cov_Inl:
  "validate_known_cov self target mts = Inl e \<Longrightarrow>
     e = KnownCovTimestampTooEarlyError \<or> e = KnownCovInsufficientError
       \<or> e = IndexError \<or> e = KeyError"
  by (auto simp: validate_known_cov_def raise_if_def Let_def
      split: option.splits if_splits sum.splits dest: py_index_Inl get_loc_Inl)

lemma validate_observed_cov_Inl:
  "validate_observed_cov self target mts = Inl e \<Longrightarrow>
     e = ObservedCovTimestampTooEarlyError \<or> e = IndexError"
  by (auto simp: validate_observed_cov_def raise_if_def Let_def
      split: option.splits if_splits sum.splits dest: py_index_Inl)

text \<open>\<^verbatim>\<open>__init__\<close> once the arguments are checked and the window is resolved.\<close>

lemma init_unfold:
  assumes "check_arguments rd i ou s st = Inr (raw, target)"
    and "resolve_time_window target i s ou tw = Inr w"
    and "self = new_self raw i ou s st w"
  shows "init rd i ou s st tw =
           (case validate_dataset self target of
              Inl e \<Rightarrow> Some (Inl e)
            | Inr _ \<Rightarrow>
                (case build_samples self of
                   None \<Rightarrow> None
                 | Some (Inl e) \<Rightarrow> Some (Inl e)
                 | Some (Inr built) \<Rightarrow> Some (Inr (self\<lparr>samples := built\<rparr>))))"
  using assms(1,2) unfolding assms(3) by (simp add: init_def Let_def)

text \<open>
  \<^verbatim>\<open>__init__\<close> always returns or raises: the stride is checked before the loop runs.
\<close>

lemma init_total: "\<exists>r. init rd i ou s st tw = Some r"
proof (cases "check_arguments rd i ou s st")
  case (Inl e)
  then show ?thesis by (simp add: init_def)
next
  case (Inr p)
  obtain raw target where p: "p = (raw, target)" by (cases p)
  with Inr have st: "0 < st" by (simp add: check_arguments_Inr)
  show ?thesis
  proof (cases "resolve_time_window target i s ou tw")
    case (Inl e)
    with Inr p show ?thesis by (simp add: init_def)
  next
    case w: (Inr w)
    from st have "0 < sampling_stride (new_self raw i ou s st w)" by simp
    from build_samples_total[OF this] obtain r where
      "build_samples (new_self raw i ou s st w) = Some r" ..
    with Inr p w show ?thesis
      by (auto simp: init_def Let_def split: sum.splits)
  qed
qed

lemma validate_dataset_Inl:
  assumes "check_time_window self target = Inr ()"
    and "validate_dataset self target = Inl e"
  shows "\<not> is_window_bound_error e"
  using assms
  by (auto simp: validate_dataset_def split: sum.splits
      dest!: py_index_Inl validate_target_Inl validate_known_cov_Inl validate_observed_cov_Inl)

lemma init_no_window_error:
  assumes ca: "check_arguments rd i ou s st = Inr (raw, target)"
    and rw: "resolve_time_window target i s ou tw = Inr w"
    and ct: "check_time_window (new_self raw i ou s st w) target = Inr ()"
    and e: "init rd i ou s st tw = Some (Inl e)"
  shows "\<not> is_window_bound_error e"
proof (cases "validate_dataset (new_self raw i ou s st w) target")
  case (Inl e')
  with e init_unfold[OF ca rw refl] have "e' = e" by simp
  with Inl validate_dataset_Inl[OF ct] show ?thesis by simp
next
  case (Inr u)
  with e init_unfold[OF ca rw refl] have
    "build_samples (new_self raw i ou s st w) = Some (Inl e)"
    by (simp split: option.splits sum.splits)
  moreover from ca have "0 < sampling_stride (new_self raw i ou s st w)"
    "get_target (rawdataset (new_self raw i ou s st w)) = Some target"
    by (simp_all add: check_arguments_Inr)
  ultimately have "e = IndexError \<or> e = KeyError"
    by (intro build_samples_Inl)
  then show ?thesis by auto
qed

lemma init_window_error:
  assumes ca: "check_arguments rd i ou s st = Inr (raw, target)"
    and rw: "resolve_time_window target i s ou tw = Inr w"
    and ct: "check_time_window (new_self raw i ou s st w) target = Inl e"
  shows "init rd i ou s st tw = Some (Inl e)"
  using init_unfold[OF ca rw refl] ct by (simp add: validate_dataset_def)

lemma validate_observed_cov_error:
  assumes "get_observed_cov (rawdataset self) = Some observed" and "observed \<noteq> []"
  shows "validate_observed_cov self target mts = Inl ObservedCovTimestampTooEarlyError \<longleftrightarrow>
     (if snd (time_window self) \<le> int (length target) - 1
      then \<exists>ts. py_index (time_index target)
                  (snd (time_window self) - target_skip_chunk_len self
                     - target_out_chunk_len self) = Inr ts
                \<and> last (time_index observed) < ts
      else last (time_index observed) < mts)"
proof -
  from assms(2) have "py_index (time_index observed) (- 1) = Inr (last (time_index observed))"
    by (intro py_index_last) (simp add: time_index_def)
  with assms(1) show ?thesis
    by (auto simp: validate_observed_cov_def raise_if_def Let_def
        split: sum.splits dest: py_index_Inl)
qed

subsection \<open>The example of the source, run\<close>

lemma init_example:
  "init (Some example_rawdataset) 2 2 1 1 (Some (4, 7)) = Some (Inr example_mldataset)"
  by code_simp

lemma init_example_default:
  "init (Some example_rawdataset) 2 2 1 1 None = Some (Inr example_mldataset)"
  by code_simp

lemma example_facts:
  "get_target example_rawdataset = Some example_target"
  "get_known_cov example_rawdataset = Some example_known_cov"
  "get_observed_cov example_rawdataset = Some example_observed_cov"
  "example_target \<noteq> []"
  "length example_target = 8"
  "length example_known_cov = 9"
  "time_window example_mldataset = (4, 7)"
  "length (samples example_mldataset) = 4"
  by (simp_all add: example_rawdataset_def example_target_def example_known_cov_def
      example_mldataset_def example_samples_def)

lemma early_observed_facts:
  "get_observed_cov early_observed_rawdataset = Some early_observed_cov"
  "early_observed_cov \<noteq> []"
  by (simp_all add: early_observed_rawdataset_def early_observed_cov_def)

subsection \<open>The default window\<close>

text \<open>
  Claim C4. When the caller omits \<^verbatim>\<open>time_window\<close> and construction succeeds, the window
  of the dataset is \<open>(max(1, in_chunk_len) + skip_chunk_len + out_chunk_len - 1,
  len(target) - 1)\<close>.
\<close>

theorem default_time_window:
  assumes "init (Some raw) in_chunk_len out_chunk_len skip_chunk_len stride None
             = Some (Inr d)"
    and "get_target raw = Some target"
  shows "time_window d
           = (max 1 in_chunk_len + skip_chunk_len + out_chunk_len - 1,
              int (length target) - 1)"
proof -
  from assms(1) obtain raw' target' where
    "Some raw = Some raw'" "get_target raw' = Some target'"
    and rw: "resolve_time_window target' in_chunk_len skip_chunk_len out_chunk_len None
               = Inr (time_window d)"
    by (rule init_facts)
  with assms(2) have "target' = target" by simp
  with rw show ?thesis
    by (simp add: resolve_time_window_def compute_min_allowed_window_def split: if_splits)
qed

theorem default_time_window_witness:
  "init (Some example_rawdataset) 2 2 1 1 None = Some (Inr example_mldataset)
   \<and> get_target example_rawdataset = Some example_target
   \<and> time_window example_mldataset = (max 1 2 + 1 + 2 - 1, int (length example_target) - 1)"
proof (intro conjI)
  show a: "init (Some example_rawdataset) 2 2 1 1 None = Some (Inr example_mldataset)"
    by (rule init_example_default)
  show b: "get_target example_rawdataset = Some example_target"
    by (simp add: example_rawdataset_def)
  show "time_window example_mldataset
          = (max 1 2 + 1 + 2 - 1, int (length example_target) - 1)"
    by (rule default_time_window[OF a b])
qed

subsection \<open>The number of samples\<close>

text \<open>
  Claim C1. A constructed dataset whose window \<open>(lower, upper)\<close> has \<open>lower \<le> upper\<close>, the
  invariant of a window in the specification, has
  \<open>floor((upper - lower) / sampling_stride) + 1\<close> samples.
\<close>

theorem sample_count:
  assumes "init rd in_chunk_len out_chunk_len skip_chunk_len stride tw = Some (Inr d)"
    and "fst (time_window d) \<le> snd (time_window d)"
  shows "len d = (snd (time_window d) - fst (time_window d)) div stride + 1"
proof -
  from assms(1) obtain
    st: "0 < stride"
    and n: "int (length (samples d))
       = max 0 ((snd (time_window d) - fst (time_window d)) div stride + 1)"
    by (rule init_facts)
  from assms(2) st have "0 \<le> (snd (time_window d) - fst (time_window d)) div stride"
    by (simp add: pos_imp_zdiv_nonneg_iff)
  with n show ?thesis by (simp add: len_def)
qed

theorem sample_count_witness:
  "init (Some example_rawdataset) 2 2 1 1 (Some (4, 7)) = Some (Inr example_mldataset)
   \<and> fst (time_window example_mldataset) \<le> snd (time_window example_mldataset)
   \<and> len example_mldataset
       = (snd (time_window example_mldataset) - fst (time_window example_mldataset)) div 1 + 1"
proof (intro conjI)
  show a: "init (Some example_rawdataset) 2 2 1 1 (Some (4, 7)) = Some (Inr example_mldataset)"
    by (rule init_example)
  show b: "fst (time_window example_mldataset) \<le> snd (time_window example_mldataset)"
    by (simp add: example_facts)
  show "len example_mldataset
       = (snd (time_window example_mldataset) - fst (time_window example_mldataset)) div 1 + 1"
    by (rule sample_count[OF a b])
qed

subsection \<open>The rows of the target chunks\<close>

text \<open>
  Claim C3. In a constructed dataset, the sample number \<open>k\<close> has the tail
  \<open>t = lower + k * sampling_stride\<close>; its \<^verbatim>\<open>future_target\<close> has \<open>out_chunk_len\<close> rows
  when \<open>t \<le> len(target) - 1\<close> and no row otherwise; its \<^verbatim>\<open>past_target\<close> has
  \<open>in_chunk_len\<close> rows, which is no row exactly when \<open>in_chunk_len = 0\<close>.
\<close>

theorem target_chunk_rows:
  assumes "init (Some raw) in_chunk_len out_chunk_len skip_chunk_len stride tw = Some (Inr d)"
    and "get_target raw = Some target"
    and "k < length (samples d)"
  shows "length (future_target (samples d ! k))
           = (if fst (time_window d) + int k * stride \<le> int (length target) - 1
              then nat out_chunk_len else 0)
         \<and> length (past_target (samples d ! k)) = nat in_chunk_len
         \<and> (length (past_target (samples d ! k)) = 0 \<longleftrightarrow> in_chunk_len = 0)"
proof -
  from assms(1,3) obtain raw' target' t where
    f: "Some raw = Some raw'" "get_target raw' = Some target'"
       "0 \<le> in_chunk_len" "0 \<le> skip_chunk_len" "0 < out_chunk_len"
    and d: "d = (new_self raw' in_chunk_len out_chunk_len skip_chunk_len stride (time_window d))
              \<lparr>samples := samples d\<rparr>"
    and t: "t = fst (time_window d) + int k * stride"
    and bs: "build_sample d target' t = Inr (samples d ! k)"
    and lo: "max 1 in_chunk_len + skip_chunk_len + out_chunk_len - 1 \<le> t"
    and up: "t \<le> int (length target') - 1 + skip_chunk_len + out_chunk_len"
    by (rule init_sample)
  from f(1,2) assms(2) have tg: "target' = target" by simp
  have fl: "target_in_chunk_len d = in_chunk_len" "target_skip_chunk_len d = skip_chunk_len"
    "target_out_chunk_len d = out_chunk_len"
    by (subst d, simp)+
  have fut: "length (future_target (samples d ! k))
      = (if t \<le> int (length target) - 1 then nat out_chunk_len else 0)"
  proof (cases "t \<le> int (length target) - 1")
    case True
    with build_sample_InrD(1)[OF bs] fl tg have
      "future_target (samples d ! k) = py_slice (to_numpy target) (t - out_chunk_len + 1) (t + 1)"
      by simp
    moreover have "length (py_slice (to_numpy target) (t - out_chunk_len + 1) (t + 1))
        = nat ((t + 1) - (t - out_chunk_len + 1))"
      using True lo f(3,4,5) by (intro length_py_slice) simp_all
    ultimately show ?thesis using True by simp
  next
    case False
    with build_sample_InrD(1)[OF bs] tg show ?thesis by simp
  qed
  have past: "length (past_target (samples d ! k)) = nat in_chunk_len"
  proof (cases "in_chunk_len = 0")
    case True
    with build_sample_InrD(2)[OF bs] fl show ?thesis by simp
  next
    case False
    let ?pt = "t - out_chunk_len - skip_chunk_len"
    from False build_sample_InrD(2)[OF bs] fl tg have
      "past_target (samples d ! k) = py_slice (to_numpy target) (?pt - in_chunk_len + 1) (?pt + 1)"
      by simp
    moreover have "length (py_slice (to_numpy target) (?pt - in_chunk_len + 1) (?pt + 1))
        = nat ((?pt + 1) - (?pt - in_chunk_len + 1))"
      using lo up f(3,4,5) tg by (intro length_py_slice) simp_all
    ultimately show ?thesis by simp
  qed
  from fut past f(3) show ?thesis by (simp add: t)
qed

theorem target_chunk_rows_witness:
  "init (Some example_rawdataset) 2 2 1 1 (Some (4, 7)) = Some (Inr example_mldataset)
   \<and> get_target example_rawdataset = Some example_target
   \<and> 0 < length (samples example_mldataset)
   \<and> length (future_target (samples example_mldataset ! 0)) = 2
   \<and> length (past_target (samples example_mldataset ! 0)) = 2"
proof -
  have b: "get_target example_rawdataset = Some example_target"
    by (simp add: example_rawdataset_def)
  have c: "0 < length (samples example_mldataset)"
    by (simp add: example_mldataset_def example_samples_def)
  have w: "time_window example_mldataset = (4, 7)"
    by (simp add: example_mldataset_def)
  have n: "length example_target = 8"
    by (simp add: example_target_def)
  from target_chunk_rows[OF init_example b c] c show ?thesis
    by (simp add: w n init_example b)
qed

subsection \<open>Access by index\<close>

text \<open>
  Claim C9, as stated: \<^verbatim>\<open>get(index)\<close> fails for every index outside
  \<open>[0, length() - 1]\<close>. On the dataset of the docstring, which has four samples, the
  index \<open>-1\<close> returns the last sample.
\<close>

theorem getitem_negative_index_counterexample:
  "init (Some example_rawdataset) 2 2 1 1 (Some (4, 7)) = Some (Inr example_mldataset)
   \<and> len example_mldataset = 4
   \<and> getitem example_mldataset (- 1) = Inr (example_samples ! 3)
   \<and> getitem example_mldataset (- 1) \<noteq> Inl IndexError"
  by code_simp

text \<open>
  Claim C9, amended: \<^verbatim>\<open>get(index)\<close> is the list access of Python. It returns the
  sample number \<open>index\<close> when \<open>0 \<le> index < length()\<close>, the sample number
  \<open>length() + index\<close> when \<open>-length() \<le> index < 0\<close>, and raises \<^verbatim>\<open>IndexError\<close> for every
  other index.
\<close>

theorem getitem_python_indexing:
  "(0 \<le> idx \<and> idx < len d \<longrightarrow> getitem d idx = Inr (samples d ! nat idx))
   \<and> (- len d \<le> idx \<and> idx < 0 \<longrightarrow> getitem d idx = Inr (samples d ! nat (len d + idx)))
   \<and> (idx < - len d \<or> len d \<le> idx \<longrightarrow> getitem d idx = Inl IndexError)"
  by (auto simp: getitem_def len_def py_index_def)

theorem getitem_python_indexing_witness:
  "getitem example_mldataset 1 = Inr (samples example_mldataset ! nat 1)
   \<and> getitem example_mldataset (- 1) = Inr (samples example_mldataset ! nat (len example_mldataset + - 1))
   \<and> getitem example_mldataset 4 = Inl IndexError
   \<and> getitem example_mldataset (- 5) = Inl IndexError"
proof -
  have n: "len example_mldataset = 4"
    by (simp add: len_def example_mldataset_def example_samples_def)
  from getitem_python_indexing[of 1 example_mldataset]
    getitem_python_indexing[of "- 1" example_mldataset]
    getitem_python_indexing[of 4 example_mldataset]
    getitem_python_indexing[of "- 5" example_mldataset]
  show ?thesis by (simp add: n)
qed

subsection \<open>The rows of the known covariates chunk\<close>

text \<open>
  Claim C2, at the dataset of the docstring with \<^verbatim>\<open>in_chunk_len = 2\<close>,
  \<^verbatim>\<open>out_chunk_len = 2\<close>, \<^verbatim>\<open>skip_chunk_len = 1\<close>, \<^verbatim>\<open>sampling_stride = 1\<close> and
  \<^verbatim>\<open>time_window = (8, 8)\<close>. The known covariates reach one step past the target, which is
  what the validation asks for this window; the builder places the right tail of the chunk
  \<^verbatim>\<open>skip_chunk_len + out_chunk_len = 3\<close> steps past the target, where the known
  covariates have no row. The construction succeeds and the one sample has two rows of
  known covariates, not \<^verbatim>\<open>in_chunk_len + out_chunk_len = 4\<close>.
\<close>

theorem known_cov_rows_failing_input:
  "init (Some example_rawdataset) 2 2 1 1 (Some (8, 8)) = Some (Inr example_predict_mldataset)
   \<and> get_known_cov example_rawdataset = Some example_known_cov
   \<and> length (samples example_predict_mldataset) = 1
   \<and> length (known_cov (samples example_predict_mldataset ! 0)) = 2
   \<and> length (known_cov (samples example_predict_mldataset ! 0)) \<noteq> nat (2 + 2)"
  by code_simp

subsection \<open>The content of the known covariates chunk\<close>

text \<open>
  Claim C5, at two datasets that construction accepts. The claim says that the
  \<^verbatim>\<open>known_cov\<close> of a sample is the rows
  \<open>right_tail - out - skip - in + 1 .. right_tail - out - skip\<close> of the known covariates
  followed by the rows \<open>right_tail - out + 1 .. right_tail\<close>.

  With the dataset of the docstring and the window \<^verbatim>\<open>(8, 8)\<close> the right tail of the one
  sample is \<open>7 + 1 + 2 = 10\<close>; the known covariates have nine rows, so the rows \<open>9 .. 10\<close>
  of the claim do not exist, and the sample holds the rows 6 and 7 alone.

  With known covariates that start at the timestamp 4 and the window \<^verbatim>\<open>(4, 4)\<close> the right
  tail is 0; the rows \<open>-4 .. -3\<close> and \<open>-1 .. 0\<close> of the claim do not exist, the two slices
  of the source are \<^verbatim>\<open>[-4:-2]\<close> and \<^verbatim>\<open>[-1:1]\<close>, and the sample holds the rows 1 and 2,
  of the timestamps 5 and 6, which lie after its tail.
\<close>

theorem known_cov_chunk_failing_input:
  "init (Some example_rawdataset) 2 2 1 1 (Some (8, 8)) = Some (Inr example_predict_mldataset)
   \<and> known_cov_right_tail example_predict_mldataset example_target example_known_cov 8 = Inr 10
   \<and> length (to_numpy example_known_cov) = 9
   \<and> known_cov_rows_spec (to_numpy example_known_cov) 10 2 2 1 = None
   \<and> known_cov (samples example_predict_mldataset ! 0) = [[60, 600, 6000], [70, 700, 7000]]
   \<and> init (Some late_known_rawdataset) 2 2 1 1 (Some (4, 4)) = Some (Inr late_known_mldataset)
   \<and> known_cov_right_tail late_known_mldataset example_target late_known_cov 4 = Inr 0
   \<and> known_cov_rows_spec (to_numpy late_known_cov) 0 2 2 1 = None
   \<and> known_cov (samples late_known_mldataset ! 0) = [[50, 500, 5000], [60, 600, 6000]]
   \<and> py_slice (to_numpy late_known_cov) (- 4) (- 2) = [[50, 500, 5000], [60, 600, 6000]]
   \<and> py_slice (to_numpy late_known_cov) (- 1) 1 = []"
  by code_simp

text \<open>
  Where the rows of the specification exist they are the slice of the source: on the
  dataset of the docstring with the window \<^verbatim>\<open>(4, 7)\<close> the first sample, of right tail 4,
  holds the rows \<open>0 .. 1\<close> and \<open>3 .. 4\<close>.
\<close>

lemma known_cov_chunk_example:
  "known_cov_right_tail example_mldataset example_target example_known_cov 4 = Inr 4
   \<and> known_cov_rows_spec (to_numpy example_known_cov) 4 2 2 1
       = Some (known_cov (samples example_mldataset ! 0))"
  by code_simp

subsection \<open>Known covariates that end too early for an inference window\<close>

text \<open>
  Claim C6. Take a window supplied by the caller with \<open>upper > len(target) - 1\<close>, a dataset
  with known covariates, and \<open>idx\<close> the position of the last target timestamp in their
  index. When the number of rows of known covariates from \<open>idx\<close> on, which is
  \<open>len(known_cov) - idx\<close>, does not exceed \<open>upper - (len(target) - 1)\<close>, construction fails
  with a validation error; it is the error of this check once the arguments, the window
  and the target have passed theirs and the index of the known covariates is sorted.
\<close>

theorem known_cov_must_extend:
  assumes "get_target raw = Some target" and "target \<noteq> []"
    and "get_known_cov raw = Some known"
    and "int (length target) - 1 < upper"
    and "get_loc (time_index known) (last (time_index target)) = Inr idx"
    and "int (length (py_slice_from (time_index known) idx)) \<le> upper - (int (length target) - 1)"
    and "self = new_self raw in_chunk_len out_chunk_len skip_chunk_len stride (lower, upper)"
  shows "(\<exists>e. init (Some raw) in_chunk_len out_chunk_len skip_chunk_len stride
                 (Some (lower, upper)) = Some (Inl e) \<and> is_validation_error e)
         \<and> int (length (py_slice_from (time_index known) idx)) = int (length known) - idx
         \<and> (check_arguments (Some raw) in_chunk_len out_chunk_len skip_chunk_len stride
               = Inr (raw, target)
             \<and> check_time_window self target = Inr ()
             \<and> validate_target self target = Inr ()
             \<and> sorted (time_index known) \<longrightarrow>
             init (Some raw) in_chunk_len out_chunk_len skip_chunk_len stride
               (Some (lower, upper)) = Some (Inl KnownCovInsufficientError))"
    (is "?fails \<and> ?count \<and> ?which")
proof -
  let ?init = "init (Some raw) in_chunk_len out_chunk_len skip_chunk_len stride
      (Some (lower, upper))"
  let ?mts = "last (time_index target)"
  from get_loc_range[OF assms(5)] have idx: "0 \<le> idx" "idx < int (length known)" by simp_all
  then have kne: "time_index known \<noteq> []" by (auto simp: time_index_def)
  have count: ?count
    using idx length_py_slice_from[of idx "time_index known"] by simp
  have kmax: "py_index (time_index known) (- 1) = Inr (last (time_index known))"
    using kne by (rule py_index_last)
  have fields: "get_known_cov (rawdataset self) = Some known" "snd (time_window self) = upper"
    using assms(3,7) by simp_all
  have vk: "validate_known_cov self target ?mts =
      (if last (time_index known) < ?mts then Inl KnownCovTimestampTooEarlyError
       else Inl KnownCovInsufficientError)"
    using fields kmax assms(4,5,6)
    by (simp add: validate_known_cov_def raise_if_def Let_def)
  have rw: "resolve_time_window target in_chunk_len skip_chunk_len out_chunk_len
      (Some (lower, upper)) = Inr (lower, upper)"
    by (simp add: resolve_time_window_def)
  from assms(2) have mts: "py_index (time_index target) (int (length (time_index target)) - 1)
      = Inr ?mts"
    by (intro py_index_max_idx) (simp add: time_index_def)
  have fails: ?fails
  proof (cases "check_arguments (Some raw) in_chunk_len out_chunk_len skip_chunk_len stride")
    case (Inl e)
    then have "?init = Some (Inl e)" by (simp add: init_def)
    moreover from check_arguments_Inl[OF Inl] have "is_validation_error e" by auto
    ultimately show ?thesis by blast
  next
    case (Inr p)
    with assms(1) have ca: "check_arguments (Some raw) in_chunk_len out_chunk_len skip_chunk_len
        stride = Inr (raw, target)"
      by (cases p) (simp add: check_arguments_Inr)
    note unf = init_unfold[OF ca rw assms(7)]
    show ?thesis
    proof (cases "check_time_window self target")
      case (Inl e)
      with unf have "?init = Some (Inl e)" by (simp add: validate_dataset_def)
      moreover from check_time_window_Inl[OF Inl] have "is_validation_error e"
        by (cases e) simp_all
      ultimately show ?thesis by blast
    next
      case ct: (Inr u)
      show ?thesis
      proof (cases "validate_target self target")
        case (Inl e)
        with unf ct mts have "?init = Some (Inl e)" by (simp add: validate_dataset_def)
        moreover from validate_target_Inl[OF Inl] have "is_validation_error e" by simp
        ultimately show ?thesis by blast
      next
        case (Inr u')
        with unf ct mts vk have "?init = Some (Inl (if last (time_index known) < ?mts
            then KnownCovTimestampTooEarlyError else KnownCovInsufficientError))"
          by (simp add: validate_dataset_def)
        then show ?thesis by auto
      qed
    qed
  qed
  have which: ?which
  proof (intro impI, elim conjE)
    assume ca: "check_arguments (Some raw) in_chunk_len out_chunk_len skip_chunk_len stride
        = Inr (raw, target)"
      and ct: "check_time_window self target = Inr ()"
      and vt: "validate_target self target = Inr ()"
      and so: "sorted (time_index known)"
    from sorted_last_ge[OF so get_loc_mem[OF assms(5)]] have "\<not> last (time_index known) < ?mts"
      by simp
    with vk have "validate_known_cov self target ?mts = Inl KnownCovInsufficientError" by simp
    with init_unfold[OF ca rw assms(7)] ct vt mts show "?init = Some (Inl KnownCovInsufficientError)"
      by (simp add: validate_dataset_def)
  qed
  from fails count which show ?thesis by blast
qed

theorem known_cov_must_extend_witness:
  "get_target example_rawdataset = Some example_target
   \<and> example_target \<noteq> []
   \<and> get_known_cov example_rawdataset = Some example_known_cov
   \<and> int (length example_target) - 1 < 9
   \<and> get_loc (time_index example_known_cov) (last (time_index example_target)) = Inr 7
   \<and> int (length (py_slice_from (time_index example_known_cov) 7))
       \<le> 9 - (int (length example_target) - 1)
   \<and> sorted (time_index example_known_cov)
   \<and> int (length (py_slice_from (time_index example_known_cov) 7))
       = int (length example_known_cov) - 7
   \<and> init (Some example_rawdataset) 2 2 1 1 (Some (9, 9)) = Some (Inl KnownCovInsufficientError)"
proof -
  have a: "int (length example_target) - 1 < 9"
    by (simp add: example_facts)
  have b: "get_loc (time_index example_known_cov) (last (time_index example_target)) = Inr 7"
    by code_simp
  have c: "int (length (py_slice_from (time_index example_known_cov) 7))
       \<le> 9 - (int (length example_target) - 1)"
    by code_simp
  have so: "sorted (time_index example_known_cov)"
    by code_simp
  have pre: "check_arguments (Some example_rawdataset) 2 2 1 1
               = Inr (example_rawdataset, example_target)
             \<and> check_time_window (new_self example_rawdataset 2 2 1 1 (9, 9)) example_target = Inr ()
             \<and> validate_target (new_self example_rawdataset 2 2 1 1 (9, 9)) example_target = Inr ()
             \<and> sorted (time_index example_known_cov)"
    by code_simp
  from known_cov_must_extend[OF example_facts(1,4,2) a b c refl, of 2 2 1 1 9] pre
  have "int (length (py_slice_from (time_index example_known_cov) 7))
       = int (length example_known_cov) - 7"
    and "init (Some example_rawdataset) 2 2 1 1 (Some (9, 9)) = Some (Inl KnownCovInsufficientError)"
    by blast+
  with example_facts(1,4,2) a b c so show ?thesis by blast
qed

subsection \<open>Observed covariates that end too early\<close>

text \<open>
  Claim C7. Take a dataset with observed covariates whose arguments, window, target and
  known covariates have passed their checks. Construction raises a validation error if
  and only if the last observed timestamp is earlier than the target timestamp at the
  index \<open>upper - skip_chunk_len - out_chunk_len\<close> when \<open>upper \<le> len(target) - 1\<close>, and
  earlier than the last target timestamp when \<open>upper > len(target) - 1\<close>; the error is the
  one of this check. The index is read the way Python reads it; it lies in the target
  whenever \<open>lower \<le> upper\<close>.
\<close>

theorem observed_cov_validation:
  assumes "check_arguments rd in_chunk_len out_chunk_len skip_chunk_len stride = Inr (raw, target)"
    and "resolve_time_window target in_chunk_len skip_chunk_len out_chunk_len tw
           = Inr (lower, upper)"
    and "self = new_self raw in_chunk_len out_chunk_len skip_chunk_len stride (lower, upper)"
    and "check_time_window self target = Inr ()"
    and "validate_target self target = Inr ()"
    and "validate_known_cov self target (last (time_index target)) = Inr ()"
    and "get_observed_cov raw = Some observed" and "observed \<noteq> []"
  shows "((\<exists>e. init rd in_chunk_len out_chunk_len skip_chunk_len stride tw = Some (Inl e)
               \<and> is_validation_error e)
           \<longleftrightarrow> (if upper \<le> int (length target) - 1
                then \<exists>ts. py_index (time_index target) (upper - skip_chunk_len - out_chunk_len)
                             = Inr ts
                           \<and> last (time_index observed) < ts
                else last (time_index observed) < last (time_index target)))
         \<and> (\<forall>e. init rd in_chunk_len out_chunk_len skip_chunk_len stride tw = Some (Inl e)
                  \<and> is_validation_error e \<longrightarrow> e = ObservedCovTimestampTooEarlyError)
         \<and> (lower \<le> upper \<and> upper \<le> int (length target) - 1 \<longrightarrow>
               py_index (time_index target) (upper - skip_chunk_len - out_chunk_len)
                 = Inr (time_index target ! nat (upper - skip_chunk_len - out_chunk_len)))"
    (is "(?err \<longleftrightarrow> ?cond) \<and> ?which \<and> ?inrange")
proof -
  let ?init = "init rd in_chunk_len out_chunk_len skip_chunk_len stride tw"
  let ?mts = "last (time_index target)"
  from assms(1) have args: "target \<noteq> []" "0 \<le> in_chunk_len" "0 \<le> skip_chunk_len"
    "0 < out_chunk_len" "0 < stride" "get_target raw = Some target"
    by (simp_all add: check_arguments_Inr)
  from args(1) have mts: "py_index (time_index target) (int (length (time_index target)) - 1)
      = Inr ?mts"
    by (intro py_index_max_idx) (simp add: time_index_def)
  from assms(4,5,6) mts have vd:
    "validate_dataset self target = validate_observed_cov self target ?mts"
    by (simp add: validate_dataset_def)
  from assms(3,7) have obs: "get_observed_cov (rawdataset self) = Some observed" by simp
  have fields: "snd (time_window self) = upper" "target_skip_chunk_len self = skip_chunk_len"
    "target_out_chunk_len self = out_chunk_len"
    using assms(3) by simp_all
  from validate_observed_cov_error[OF obs assms(8), of target ?mts] fields
  have ve: "validate_observed_cov self target ?mts = Inl ObservedCovTimestampTooEarlyError
      \<longleftrightarrow> ?cond"
    by simp
  have build: "e = IndexError \<or> e = KeyError" if "build_samples self = Some (Inl e)" for e
    using that args(5,6) assms(3) by (intro build_samples_Inl[of self target]) simp_all
  have unf: "?init =
           (case validate_observed_cov self target ?mts of
              Inl e \<Rightarrow> Some (Inl e)
            | Inr _ \<Rightarrow>
                (case build_samples self of
                   None \<Rightarrow> None
                 | Some (Inl e) \<Rightarrow> Some (Inl e)
                 | Some (Inr built) \<Rightarrow> Some (Inr (self\<lparr>samples := built\<rparr>))))"
    using init_unfold[OF assms(1,2,3)] vd by simp
  have which: "e = ObservedCovTimestampTooEarlyError
      \<and> validate_observed_cov self target ?mts = Inl ObservedCovTimestampTooEarlyError"
    if "?init = Some (Inl e)" and "is_validation_error e" for e
  proof (cases "validate_observed_cov self target ?mts")
    case (Inl e')
    with unf that(1) have "e' = e" by simp
    with Inl that(2) validate_observed_cov_Inl[OF Inl] show ?thesis by auto
  next
    case (Inr u)
    with unf that(1) have "build_samples self = Some (Inl e)"
      by (simp split: option.splits sum.splits)
    from build[OF this] that(2) show ?thesis by auto
  qed
  have "?err \<longleftrightarrow> ?cond"
  proof
    assume ?err
    with which ve show ?cond by blast
  next
    assume ?cond
    with ve have "validate_observed_cov self target ?mts = Inl ObservedCovTimestampTooEarlyError"
      by (rule iffD2)
    with unf have "?init = Some (Inl ObservedCovTimestampTooEarlyError)" by simp
    then show ?err by auto
  qed
  moreover from which have ?which by blast
  moreover have ?inrange
  proof (intro impI)
    assume a: "lower \<le> upper \<and> upper \<le> int (length target) - 1"
    from assms(3,4) have "max 1 in_chunk_len + skip_chunk_len + out_chunk_len - 1 \<le> lower"
      by (simp add: check_time_window_Inr)
    with a args(3,4) have "0 \<le> upper - skip_chunk_len - out_chunk_len"
      and "upper - skip_chunk_len - out_chunk_len < int (length (time_index target))"
      by (simp_all add: max_def split: if_splits)
    then show "py_index (time_index target) (upper - skip_chunk_len - out_chunk_len)
        = Inr (time_index target ! nat (upper - skip_chunk_len - out_chunk_len))"
      by (rule py_index_nth)
  qed
  ultimately show ?thesis by blast
qed

theorem observed_cov_validation_witness:
  "check_arguments (Some early_observed_rawdataset) 2 2 1 1
     = Inr (early_observed_rawdataset, example_target)
   \<and> resolve_time_window example_target 2 1 2 (Some (4, 7)) = Inr (4, 7)
   \<and> check_time_window (new_self early_observed_rawdataset 2 2 1 1 (4, 7)) example_target
       = Inr ()
   \<and> validate_target (new_self early_observed_rawdataset 2 2 1 1 (4, 7)) example_target = Inr ()
   \<and> validate_known_cov (new_self early_observed_rawdataset 2 2 1 1 (4, 7)) example_target
         (last (time_index example_target)) = Inr ()
   \<and> get_observed_cov early_observed_rawdataset = Some early_observed_cov
   \<and> early_observed_cov \<noteq> []
   \<and> (7 :: int) \<le> int (length example_target) - 1
   \<and> py_index (time_index example_target) (7 - 1 - 2) = Inr 4
   \<and> last (time_index early_observed_cov) < 4
   \<and> init (Some early_observed_rawdataset) 2 2 1 1 (Some (4, 7))
       = Some (Inl ObservedCovTimestampTooEarlyError)"
proof -
  have h1: "check_arguments (Some early_observed_rawdataset) 2 2 1 1
     = Inr (early_observed_rawdataset, example_target)"
    by code_simp
  have h2: "resolve_time_window example_target 2 1 2 (Some (4, 7)) = Inr (4, 7)"
    by (simp add: resolve_time_window_def)
  have h4: "check_time_window (new_self early_observed_rawdataset 2 2 1 1 (4, 7)) example_target
       = Inr ()"
    by code_simp
  have h5: "validate_target (new_self early_observed_rawdataset 2 2 1 1 (4, 7)) example_target
       = Inr ()"
    by code_simp
  have h6: "validate_known_cov (new_self early_observed_rawdataset 2 2 1 1 (4, 7)) example_target
         (last (time_index example_target)) = Inr ()"
    by code_simp
  have r: "(7 :: int) \<le> int (length example_target) - 1"
    by (simp add: example_facts)
  have p: "py_index (time_index example_target) (7 - 1 - 2) = Inr 4"
    by code_simp
  have l: "last (time_index early_observed_cov) < 4"
    by code_simp
  from r p l have cond: "if (7 :: int) \<le> int (length example_target) - 1
      then \<exists>ts. py_index (time_index example_target) (7 - 1 - 2) = Inr ts
                 \<and> last (time_index early_observed_cov) < ts
      else last (time_index early_observed_cov) < last (time_index example_target)"
    by auto
  from observed_cov_validation[OF h1 h2 refl h4 h5 h6 early_observed_facts] cond
  have "init (Some early_observed_rawdataset) 2 2 1 1 (Some (4, 7))
       = Some (Inl ObservedCovTimestampTooEarlyError)"
    by blast
  with h1 h2 h4 h5 h6 early_observed_facts r p l show ?thesis by blast
qed

subsection \<open>The bounds of the window\<close>

text \<open>
  Claim C8. With valid chunk lengths and stride and a target that is not empty,
  construction fails with one of the two window bound errors if and only if the caller
  supplied a window with \<open>lower < max(1, in_chunk_len) + skip_chunk_len + out_chunk_len - 1\<close>
  or \<open>upper > len(target) - 1 + skip_chunk_len + out_chunk_len\<close>. The window of every
  constructed dataset lies within these two bounds.
\<close>

theorem window_bound_errors:
  assumes "get_target raw = Some target"
  shows "(target \<noteq> [] \<and> 0 \<le> in_chunk_len \<and> 0 \<le> skip_chunk_len \<and> 0 < out_chunk_len
            \<and> 0 < stride \<longrightarrow>
            ((\<exists>e. init (Some raw) in_chunk_len out_chunk_len skip_chunk_len stride tw
                     = Some (Inl e) \<and> is_window_bound_error e)
              \<longleftrightarrow> (\<exists>lower upper. tw = Some (lower, upper)
                    \<and> (lower < max 1 in_chunk_len + skip_chunk_len + out_chunk_len - 1
                         \<or> int (length target) - 1 + skip_chunk_len + out_chunk_len < upper))))
         \<and> (\<forall>d. init (Some raw) in_chunk_len out_chunk_len skip_chunk_len stride tw
                   = Some (Inr d) \<longrightarrow>
                max 1 in_chunk_len + skip_chunk_len + out_chunk_len - 1 \<le> fst (time_window d)
                \<and> snd (time_window d)
                    \<le> int (length target) - 1 + skip_chunk_len + out_chunk_len)"
    (is "(?valid \<longrightarrow> (?err \<longleftrightarrow> ?out)) \<and> ?inv")
proof (intro conjI impI)
  show ?inv
  proof (intro allI impI)
    fix d
    assume "init (Some raw) in_chunk_len out_chunk_len skip_chunk_len stride tw = Some (Inr d)"
    then obtain raw' target' where
      "Some raw = Some raw'" "get_target raw' = Some target'"
      and vd: "validate_dataset d target' = Inr ()"
      and d: "d = (new_self raw' in_chunk_len out_chunk_len skip_chunk_len stride (time_window d))
                \<lparr>samples := samples d\<rparr>"
      by (rule init_facts)
    with assms have tg: "target' = target" by simp
    have fl: "target_in_chunk_len d = in_chunk_len" "target_skip_chunk_len d = skip_chunk_len"
      "target_out_chunk_len d = out_chunk_len"
      by (subst d, simp)+
    from vd have "check_time_window d target' = Inr ()"
      by (rule validate_dataset_InrD)
    with fl tg show "max 1 in_chunk_len + skip_chunk_len + out_chunk_len - 1 \<le> fst (time_window d)
        \<and> snd (time_window d) \<le> int (length target) - 1 + skip_chunk_len + out_chunk_len"
      by (simp add: check_time_window_Inr)
  qed
next
  assume ?valid
  with assms have ca: "check_arguments (Some raw) in_chunk_len out_chunk_len skip_chunk_len stride
      = Inr (raw, target)"
    by (simp add: check_arguments_Inr)
  let ?init = "init (Some raw) in_chunk_len out_chunk_len skip_chunk_len stride tw"
  show "?err \<longleftrightarrow> ?out"
  proof (cases tw)
    case None
    have "\<not> ?err"
    proof (cases "resolve_time_window target in_chunk_len skip_chunk_len out_chunk_len tw")
      case (Inl e)
      with None have "e = TargetTooShortError"
        by (simp add: resolve_time_window_def split: if_splits)
      moreover from Inl ca have "?init = Some (Inl e)" by (simp add: init_def)
      ultimately show ?thesis by auto
    next
      case (Inr w)
      with None have w: "w = (max 1 in_chunk_len + skip_chunk_len + out_chunk_len - 1,
          int (length target) - 1)"
        by (simp add: resolve_time_window_def compute_min_allowed_window_def split: if_splits)
      with \<open>?valid\<close> have "check_time_window
          (new_self raw in_chunk_len out_chunk_len skip_chunk_len stride w) target = Inr ()"
        by (simp add: check_time_window_Inr)
      from init_no_window_error[OF ca Inr this] show ?thesis by blast
    qed
    with None show ?thesis by simp
  next
    case (Some w)
    obtain lower upper where w: "w = (lower, upper)" by (cases w)
    from Some have rw: "resolve_time_window target in_chunk_len skip_chunk_len out_chunk_len tw
        = Inr w"
      by (simp add: resolve_time_window_def)
    let ?self = "new_self raw in_chunk_len out_chunk_len skip_chunk_len stride w"
    show ?thesis
    proof (cases "check_time_window ?self target")
      case (Inl e)
      from init_window_error[OF ca rw Inl] check_time_window_Inl[OF Inl] have ?err by blast
      moreover from Inl have "check_time_window ?self target \<noteq> Inr ()" by simp
      with w Some have ?out by (auto simp: check_time_window_Inr)
      ultimately show ?thesis by blast
    next
      case (Inr u)
      from init_no_window_error[OF ca rw] Inr have "\<not> ?err" by auto
      moreover from Inr w Some have "\<not> ?out" by (auto simp: check_time_window_Inr)
      ultimately show ?thesis by blast
    qed
  qed
qed

theorem window_bound_errors_witness:
  "get_target example_rawdataset = Some example_target
   \<and> example_target \<noteq> []
   \<and> (3 :: int) < max 1 2 + 1 + 2 - 1
   \<and> init (Some example_rawdataset) 2 2 1 1 (Some (3, 7)) = Some (Inl WindowLowerBoundError)
   \<and> is_window_bound_error WindowLowerBoundError
   \<and> init (Some example_rawdataset) 2 2 1 1 (Some (4, 7)) = Some (Inr example_mldataset)
   \<and> max 1 2 + 1 + 2 - 1 \<le> fst (time_window example_mldataset)
   \<and> snd (time_window example_mldataset) \<le> int (length example_target) - 1 + 1 + 2"
proof -
  have lo: "(3 :: int) < max 1 2 + 1 + 2 - 1" by simp
  from window_bound_errors[OF example_facts(1), of 2 1 2 1 "Some (3, 7)"] example_facts(4) lo
  obtain e where e: "init (Some example_rawdataset) 2 2 1 1 (Some (3, 7)) = Some (Inl e)"
    "is_window_bound_error e"
    by auto
  have "init (Some example_rawdataset) 2 2 1 1 (Some (3, 7)) = Some (Inl WindowLowerBoundError)"
    by code_simp
  moreover from window_bound_errors[OF example_facts(1), of 2 1 2 1 "Some (4, 7)"] init_example
  have "max 1 2 + 1 + 2 - 1 \<le> fst (time_window example_mldataset)
    \<and> snd (time_window example_mldataset) \<le> int (length example_target) - 1 + 1 + 2"
    by blast
  ultimately show ?thesis
    using example_facts(1,4) lo init_example e by auto
qed

subsection \<open>A window whose upper bound is below its lower bound\<close>

text \<open>
  Claim C10, as stated: with valid chunk lengths and stride and a window within the two
  bounds but with \<open>upper < lower\<close>, construction raises no error. On the dataset of the
  docstring the window \<^verbatim>\<open>(4, -9)\<close> lies within the bounds; the validation of the known
  covariates reads the target index at \<open>upper = -9\<close>, which eight rows do not have, and
  construction raises \<^verbatim>\<open>IndexError\<close>.
\<close>

theorem reversed_window_counterexample:
  "compute_min_allowed_window 2 1 2 \<le> 4
   \<and> - 9 \<le> max_allowed_window (new_self example_rawdataset 2 2 1 1 (4, - 9)) example_target
   \<and> (- 9 :: int) < 4
   \<and> init (Some example_rawdataset) 2 2 1 1 (Some (4, - 9)) = Some (Inl IndexError)"
  by code_simp

text \<open>
  Claim C10, amended: when moreover the target and the covariates pass their validation
  for the window, construction raises no error and the dataset has no sample. The order
  of the two bounds is never checked.
\<close>

theorem reversed_window_builds_nothing:
  assumes "get_target raw = Some target" and "target \<noteq> []"
    and "0 \<le> in_chunk_len" and "0 \<le> skip_chunk_len" and "0 < out_chunk_len" and "0 < stride"
    and "max 1 in_chunk_len + skip_chunk_len + out_chunk_len - 1 \<le> lower"
    and "upper \<le> int (length target) - 1 + skip_chunk_len + out_chunk_len"
    and "upper < lower"
    and "self = new_self raw in_chunk_len out_chunk_len skip_chunk_len stride (lower, upper)"
    and "validate_target self target = Inr ()"
    and "validate_known_cov self target (last (time_index target)) = Inr ()"
    and "validate_observed_cov self target (last (time_index target)) = Inr ()"
  shows "init (Some raw) in_chunk_len out_chunk_len skip_chunk_len stride (Some (lower, upper))
           = Some (Inr self)
         \<and> len self = 0"
proof -
  from assms(1-6) have ca:
    "check_arguments (Some raw) in_chunk_len out_chunk_len skip_chunk_len stride = Inr (raw, target)"
    by (simp add: check_arguments_Inr)
  have rw: "resolve_time_window target in_chunk_len skip_chunk_len out_chunk_len
      (Some (lower, upper)) = Inr (lower, upper)"
    by (simp add: resolve_time_window_def)
  from assms(7,8,10) have ct: "check_time_window self target = Inr ()"
    by (simp add: check_time_window_Inr)
  from assms(2) have mts: "py_index (time_index target) (int (length (time_index target)) - 1)
      = Inr (last (time_index target))"
    by (intro py_index_max_idx) (simp add: time_index_def)
  from ct mts assms(11-13) have vd: "validate_dataset self target = Inr ()"
    by (simp add: validate_dataset_def)
  from assms(1,9,10) have "build_samples self = Some (Inr [])"
    by (simp add: build_samples_def build_loop_empty)
  with init_unfold[OF ca rw assms(10)] vd have
    "init (Some raw) in_chunk_len out_chunk_len skip_chunk_len stride (Some (lower, upper))
       = Some (Inr (self\<lparr>samples := []\<rparr>))"
    by simp
  moreover from assms(10) have "self\<lparr>samples := []\<rparr> = self"
    by (simp add: new_self_def)
  moreover from assms(10) have "len self = 0" by (simp add: len_def)
  ultimately show ?thesis by simp
qed

theorem reversed_window_builds_nothing_witness:
  "get_target example_rawdataset = Some example_target
   \<and> example_target \<noteq> []
   \<and> max 1 2 + 1 + 2 - 1 \<le> (7 :: int)
   \<and> 5 \<le> int (length example_target) - 1 + 1 + 2
   \<and> (5 :: int) < 7
   \<and> validate_target example_reversed_mldataset example_target = Inr ()
   \<and> validate_known_cov example_reversed_mldataset example_target
         (last (time_index example_target)) = Inr ()
   \<and> validate_observed_cov example_reversed_mldataset example_target
         (last (time_index example_target)) = Inr ()
   \<and> init (Some example_rawdataset) 2 2 1 1 (Some (7, 5)) = Some (Inr example_reversed_mldataset)
   \<and> len example_reversed_mldataset = 0"
proof -
  have a: "max 1 2 + 1 + 2 - 1 \<le> (7 :: int)" by simp
  have b: "5 \<le> int (length example_target) - 1 + 1 + 2" by (simp add: example_facts)
  have c: "(5 :: int) < 7" by simp
  have v1: "validate_target example_reversed_mldataset example_target = Inr ()"
    by code_simp
  have v2: "validate_known_cov example_reversed_mldataset example_target
         (last (time_index example_target)) = Inr ()"
    by code_simp
  have v3: "validate_observed_cov example_reversed_mldataset example_target
         (last (time_index example_target)) = Inr ()"
    by code_simp
  have "init (Some example_rawdataset) 2 2 1 1 (Some (7, 5)) = Some (Inr example_reversed_mldataset)
   \<and> len example_reversed_mldataset = 0"
    by (rule reversed_window_builds_nothing[OF example_facts(1,4) _ _ _ _ a b c
          example_reversed_mldataset_def v1 v2 v3]) simp_all
  with example_facts(1,4) a b c v1 v2 v3 show ?thesis by blast
qed

end
